theory Spec2Isabelle
  imports Main "HOL-Library.AList" "HOL-Library.Monad_Syntax"
begin

section \<open>JavaScript strings\<close>

text \<open>
  A JavaScript string is a sequence of UTF-16 code units, and \<^verbatim>\<open>length\<close> counts code
  units. A code unit is a natural number here; the literals of the source are in
  Unicode normal form C and every non-ASCII letter they contain is one code unit of
  Latin-1 (225 is a-acute, 227 a-tilde, 231 c-cedilla, 233 e-acute, 234 e-circumflex,
  237 i-acute, 243 o-acute, 245 o-tilde).
\<close>

type_synonym jsstring = "nat list"

definition js :: "string \<Rightarrow> jsstring" where
  "js s = map of_char s"

text \<open>
  \<^verbatim>\<open>String.prototype.toLowerCase\<close>, exact on Basic Latin and on the Latin-1 Supplement
  (where the keywords and the built-in tag vocabulary of the source live). Code units
  outside these two blocks are left as they are; JavaScript lowers further Unicode
  letters there. The proofs of the general theorems below do not unfold this
  definition; the inputs that are evaluated are Basic Latin.
\<close>

definition lowerUnit :: "nat \<Rightarrow> nat" where
  "lowerUnit c =
     (if 65 \<le> c \<and> c \<le> 90 then c + 32
      else if 192 \<le> c \<and> c \<le> 222 \<and> c \<noteq> 215 then c + 32
      else c)"

definition toLowerCase :: "jsstring \<Rightarrow> jsstring" where
  "toLowerCase s = map lowerUnit s"

fun startsWith :: "jsstring \<Rightarrow> jsstring \<Rightarrow> bool" where
  "startsWith s [] = True"
| "startsWith [] (p # ps) = False"
| "startsWith (c # cs) (p # ps) = (c = p \<and> startsWith cs ps)"

text \<open>\<^verbatim>\<open>s.includes(pat)\<close>: \<open>pat\<close> occurs in \<open>s\<close> as a contiguous substring.\<close>

fun includesStr :: "jsstring \<Rightarrow> jsstring \<Rightarrow> bool" where
  "includesStr [] pat = (pat = [])"
| "includesStr (c # cs) pat = (startsWith (c # cs) pat \<or> includesStr cs pat)"

definition includesAny :: "jsstring \<Rightarrow> jsstring list \<Rightarrow> bool" where
  "includesAny s pats = list_ex (includesStr s) pats"

text \<open>
  \<^verbatim>\<open>s.replace(pat, rep)\<close> with a string pattern replaces the first occurrence only
  (the replacement strings of the source contain no \<^verbatim>\<open>$\<close> pattern).
\<close>

fun replace :: "jsstring \<Rightarrow> jsstring \<Rightarrow> jsstring \<Rightarrow> jsstring" where
  "replace [] pat rep = (if pat = [] then rep else [])"
| "replace (c # cs) pat rep =
     (if startsWith (c # cs) pat then rep @ drop (length pat) (c # cs)
      else c # replace cs pat rep)"

text \<open>The white space and line terminators that \<^verbatim>\<open>trim\<close> strips.\<close>

definition isWhiteSpace :: "nat \<Rightarrow> bool" where
  "isWhiteSpace c \<longleftrightarrow>
     c \<in> {9, 10, 11, 12, 13, 32, 160, 5760, 8232, 8233, 8239, 8287, 12288, 65279}
     \<or> (8192 \<le> c \<and> c \<le> 8202)"

definition trim :: "jsstring \<Rightarrow> jsstring" where
  "trim s = rev (dropWhile isWhiteSpace (rev (dropWhile isWhiteSpace s)))"

text \<open>\<^verbatim>\<open>s.split('\n')\<close>: always at least one piece; the empty string gives one empty piece.\<close>

fun split_lines :: "jsstring \<Rightarrow> jsstring \<Rightarrow> jsstring list" where
  "split_lines cur [] = [cur]"
| "split_lines cur (c # cs) =
     (if c = 10 then cur # split_lines [] cs else split_lines (cur @ [c]) cs)"

definition split_nl :: "jsstring \<Rightarrow> jsstring list" where
  "split_nl s = split_lines [] s"

text \<open>
  \<^verbatim>\<open>[...new Set(xs)]\<close>: a Set iterates in insertion order and \<^verbatim>\<open>add\<close> of a member
  already present changes nothing.
\<close>

definition Set_add :: "'a list \<Rightarrow> 'a \<Rightarrow> 'a list" where
  "Set_add s x = (if x \<in> set s then s else s @ [x])"

definition new_Set :: "'a list \<Rightarrow> 'a list" where
  "new_Set xs = foldl Set_add [] xs"

text \<open>\<^verbatim>\<open>if (cond) xs.push(x)\<close>\<close>

definition pushIf :: "bool \<Rightarrow> 'a \<Rightarrow> 'a list \<Rightarrow> 'a list" where
  "pushIf cond x xs = (if cond then xs @ [x] else xs)"

section \<open>Data model (templates.ts)\<close>

record PromptMetadata =
  sections :: "jsstring list"
  acceptanceCriteria :: "jsstring list"
  checklist :: "jsstring list"

record RefinedPromptOutput =
  improvedPrompt :: jsstring
  rationale :: jsstring
  risks :: "jsstring list"
  tags :: "jsstring list"
  metadata :: PromptMetadata

text \<open>
  One entry of \<^verbatim>\<open>rules.templates\<close>. The rule document is parsed YAML, so the section
  list of an entry may be missing: \<open>None\<close> is \<^verbatim>\<open>undefined\<close>.
\<close>

record Template =
  prompt_prefix :: jsstring
  template_sections :: "jsstring list option"

record PromptRules =
  main_refiner :: jsstring
  templates :: "(jsstring \<times> Template) list"
  risk_categories :: "jsstring list"
  common_tags :: "jsstring list"

text \<open>
  \<^verbatim>\<open>getDefaultRules\<close>. The rule file \<^verbatim>\<open>rules/prompt_rules.yaml\<close> that \<^verbatim>\<open>loadRules\<close> reads is
  not part of the sources, so every operation below takes the rule document as an
  argument; \<open>getDefaultRules\<close> is the document used when the file cannot be loaded.
\<close>

definition getDefaultRules :: PromptRules where
  "getDefaultRules =
     \<lparr> main_refiner = js ''You are an expert prompt engineer. Analyze and improve the given prompt with structured output in JSON format.'',
       templates =
         [(js ''software_development'',
           \<lparr> prompt_prefix = js ''Como um desenvolvedor s'' @ [234] @ js ''nior experiente, '',
             template_sections = Some
               [js ''An'' @ [225] @ js ''lise de Requisitos'',
                js ''Arquitetura Proposta'',
                js ''Implementa'' @ [231, 227] @ js ''o'',
                js ''Testes'',
                js ''Documenta'' @ [231, 227] @ js ''o''] \<rparr>)],
       risk_categories = [js ''Seguran'' @ [231] @ js ''a'', js ''Performance'', js ''Escalabilidade''],
       common_tags = [js ''desenvolvimento'', js ''automa'' @ [231, 227] @ js ''o'', js ''dados''] \<rparr>"

section \<open>Heuristic template engine (class TemplateManager)\<close>

text \<open>
  The repository holds two copies of the class. The definitions below embed the richer
  copy (src/unnamed/part_002): six risk categories, the derived tag rules for
  automation, data and development, and the generic advisory of \<open>identifyRisks\<close>.
  \<open>detectTemplate\<close> and \<open>getTemplateMetadata\<close> are the same text in both copies.
\<close>

definition detectTemplate :: "jsstring \<Rightarrow> jsstring" where
  "detectTemplate prompt =
     (let lowerPrompt = toLowerCase prompt in
      if includesStr lowerPrompt (js ''script'') \<or> includesStr lowerPrompt (js ''c'' @ [243] @ js ''digo'')
         \<or> includesStr lowerPrompt (js ''desenvolv'') \<or> includesStr lowerPrompt (js ''program'')
      then js ''software_development''
      else if includesStr lowerPrompt (js ''dados'') \<or> includesStr lowerPrompt (js ''csv'')
         \<or> includesStr lowerPrompt (js ''database'') \<or> includesStr lowerPrompt (js ''postgres'')
      then js ''data_processing''
      else js ''software_development'')"

definition defaultSections :: "jsstring list" where
  "defaultSections = [js ''Plan'', js ''Risks'', js ''Next actions'', js ''Tests'']"

definition getTemplateMetadata :: "PromptRules \<Rightarrow> jsstring \<Rightarrow> PromptMetadata" where
  "getTemplateMetadata rules templateName =
     (case map_of (templates rules) templateName of
        None \<Rightarrow>
          \<lparr> sections = defaultSections,
            acceptanceCriteria =
              [js ''Funcionalidade implementada corretamente'',
               js ''Testes passando'',
               js ''Documenta'' @ [231, 227] @ js ''o atualizada''],
            checklist =
              [js ''Revisar c'' @ [243] @ js ''digo'',
               js ''Executar testes'',
               js ''Validar requisitos''] \<rparr>
      | Some template \<Rightarrow>
          \<lparr> sections =
              (case template_sections template of
                 None \<Rightarrow> defaultSections
               | Some secs \<Rightarrow> secs),
            acceptanceCriteria =
              [js ''Solu'' @ [231, 227] @ js ''o atende aos requisitos especificados'',
               js ''C'' @ [243] @ js ''digo segue padr'' @ [245] @ js ''es de qualidade'',
               js ''Testes validam funcionalidade''],
            checklist =
              [js ''Implementar solu'' @ [231, 227] @ js ''o proposta'',
               js ''Criar testes unit'' @ [225] @ js ''rios'',
               js ''Validar com dados de teste'',
               js ''Documentar implementa'' @ [231, 227] @ js ''o''] \<rparr>)"

text \<open>The test of the loop over \<^verbatim>\<open>rules.common_tags\<close> in \<open>suggestTags\<close>.\<close>

definition commonTagMatches :: "jsstring \<Rightarrow> jsstring \<Rightarrow> bool" where
  "commonTagMatches lowerPrompt tag =
     (let tagLower = toLowerCase tag in
      includesStr lowerPrompt tagLower
      \<or> includesStr lowerPrompt (replace tagLower [227] (js ''a''))
      \<or> includesStr lowerPrompt (replace tagLower [231] (js ''c'')))"

text \<open>The array \<^verbatim>\<open>suggestedTags\<close> as it stands before the duplicates are removed.\<close>

definition suggestedTags :: "PromptRules \<Rightarrow> jsstring \<Rightarrow> jsstring list" where
  "suggestedTags rules prompt =
     (let lowerPrompt = toLowerCase prompt;
          t0 = filter (commonTagMatches lowerPrompt) (common_tags rules);
          t1 = pushIf (includesAny lowerPrompt [js ''api'', js ''rest'', js ''endpoint'']) (js ''api'') t0;
          t2 = pushIf (includesAny lowerPrompt [js ''test'', js ''unit'', js ''integration'']) (js ''testes'') t1;
          t3 = pushIf (includesAny lowerPrompt [js ''performance'', js ''otimiz'', js ''speed'']) (js ''performance'') t2;
          t4 = pushIf (includesAny lowerPrompt [js ''script'', js ''automat''])
                 (js ''automa'' @ [231, 227] @ js ''o'') t3;
          t5 = pushIf (includesAny lowerPrompt [js ''csv'', js ''postgres'', js ''database'']) (js ''dados'') t4;
          t6 = pushIf (includesAny lowerPrompt [js ''desenvolv'', js ''criar'', js ''implement''])
                 (js ''desenvolvimento'') t5
      in t6)"

definition suggestTags :: "PromptRules \<Rightarrow> jsstring \<Rightarrow> jsstring list" where
  "suggestTags rules prompt = new_Set (suggestedTags rules prompt)"

text \<open>The six keyword tests of \<open>identifyRisks\<close>, on the lowered prompt.\<close>

definition securityRisk :: "jsstring \<Rightarrow> bool" where
  "securityRisk lowerPrompt =
     includesAny lowerPrompt
       [js ''password'', js ''secret'', js ''token'', js ''auth'', js ''login'', js ''senha'']"

definition performanceRisk :: "jsstring \<Rightarrow> bool" where
  "performanceRisk lowerPrompt =
     includesAny lowerPrompt
       [js ''loop'', js ''recurs'' @ [227] @ js ''o'', js ''grande volume'', js ''many'',
        js ''milh'' @ [245] @ js ''es'', js ''lote'']"

definition dataRisk :: "jsstring \<Rightarrow> bool" where
  "dataRisk lowerPrompt =
     includesAny lowerPrompt
       [js ''database'', js ''sql'', js ''dados'', js ''csv'', js ''postgres'',
        js ''valida'' @ [231, 227] @ js ''o'']"

definition externalRisk :: "jsstring \<Rightarrow> bool" where
  "externalRisk lowerPrompt =
     includesAny lowerPrompt
       [js ''api'', js ''external'', js ''terceiro'', js ''http'', js ''rest'', js ''endpoint'']"

definition fileSystemRisk :: "jsstring \<Rightarrow> bool" where
  "fileSystemRisk lowerPrompt =
     includesAny lowerPrompt [js ''arquivo'', js ''file'', js ''salvar'', js ''gravar'']"

definition backupRisk :: "jsstring \<Rightarrow> bool" where
  "backupRisk lowerPrompt =
     includesAny lowerPrompt [js ''backup'', js ''recovery'', js ''restore'', js ''recuper'']"

definition genericRisk :: jsstring where
  "genericRisk = js ''Verificar implementa'' @ [231, 227] @ js ''o cuidadosamente''"

definition identifyRisks :: "jsstring \<Rightarrow> jsstring list" where
  "identifyRisks prompt =
     (let lowerPrompt = toLowerCase prompt;
          r1 = pushIf (securityRisk lowerPrompt)
                 (js ''Dados sens'' @ [237] @ js ''veis podem estar expostos'') [];
          r2 = pushIf (performanceRisk lowerPrompt)
                 (js ''Poss'' @ [237] @ js ''vel impacto na performance com grandes volumes'') r1;
          r3 = pushIf (dataRisk lowerPrompt)
                 (js ''Valida'' @ [231, 227] @ js ''o de dados de entrada necess'' @ [225] @ js ''ria'') r2;
          r4 = pushIf (externalRisk lowerPrompt)
                 (js ''Depend'' @ [234] @ js ''ncia de servi'' @ [231] @ js ''os externos pode falhar'') r3;
          r5 = pushIf (fileSystemRisk lowerPrompt)
                 (js ''Verificar permiss'' @ [245] @ js ''es de acesso a arquivos'') r4;
          r6 = pushIf (backupRisk lowerPrompt)
                 (js ''Implementar estrat'' @ [233] @ js ''gia de recupera'' @ [231, 227] @ js ''o em caso de falha'') r5
      in if length r6 > 0 then r6 else [genericRisk])"

section \<open>JSON values and \<^verbatim>\<open>JSON.parse\<close>\<close>

text \<open>
  A number keeps its lexeme: no claim reads its value. An object is its list of
  properties, one entry per key; a key that occurs again in the text overwrites the
  value of the entry it already has.
\<close>

datatype json =
    JNull
  | JBool bool
  | JNumber jsstring
  | JString jsstring
  | JArray "json list"
  | JObject "(jsstring \<times> json) list"

definition isJsonWs :: "nat \<Rightarrow> bool" where
  "isJsonWs c \<longleftrightarrow> c = 9 \<or> c = 10 \<or> c = 13 \<or> c = 32"

definition skip_ws :: "jsstring \<Rightarrow> jsstring" where
  "skip_ws s = dropWhile isJsonWs s"

definition hexDigit :: "nat \<Rightarrow> nat option" where
  "hexDigit c =
     (if 48 \<le> c \<and> c \<le> 57 then Some (c - 48)
      else if 97 \<le> c \<and> c \<le> 102 then Some (c - 87)
      else if 65 \<le> c \<and> c \<le> 70 then Some (c - 55)
      else None)"

definition hex4 :: "jsstring \<Rightarrow> nat option" where
  "hex4 s =
     (case map hexDigit s of
        [Some a, Some b, Some c, Some d] \<Rightarrow> Some (((a * 16 + b) * 16 + c) * 16 + d)
      | _ \<Rightarrow> None)"

definition escapeChar :: "nat \<Rightarrow> nat option" where
  "escapeChar e =
     (if e = 34 \<or> e = 92 \<or> e = 47 then Some e
      else if e = 98 then Some 8
      else if e = 102 then Some 12
      else if e = 110 then Some 10
      else if e = 114 then Some 13
      else if e = 116 then Some 9
      else None)"

text \<open>
  The characters of a string literal after its opening quote; the result is the decoded
  string and the text after the closing quote.
\<close>

fun parse_chars :: "jsstring \<Rightarrow> jsstring \<Rightarrow> (jsstring \<times> jsstring) option" where
  "parse_chars acc [] = None"
| "parse_chars acc [c] = (if c = 34 then Some (acc, []) else None)"
| "parse_chars acc (c # e # es) =
     (if c = 34 then Some (acc, e # es)
      else if c = 92 then
        (if e = 117 then
           (case hex4 (take 4 es) of
              None \<Rightarrow> None
            | Some u \<Rightarrow> parse_chars (acc @ [u]) (drop 4 es))
         else
           (case escapeChar e of
              None \<Rightarrow> None
            | Some x \<Rightarrow> parse_chars (acc @ [x]) es))
      else if c < 32 then None
      else parse_chars (acc @ [c]) (e # es))"

definition isDigit :: "nat \<Rightarrow> bool" where
  "isDigit c \<longleftrightarrow> 48 \<le> c \<and> c \<le> 57"

definition isNumberChar :: "nat \<Rightarrow> bool" where
  "isNumberChar c \<longleftrightarrow> isDigit c \<or> c = 45 \<or> c = 43 \<or> c = 46 \<or> c = 101 \<or> c = 69"

definition valid_exp :: "jsstring \<Rightarrow> bool" where
  "valid_exp s =
     (s = [] \<or>
      ((hd s = 101 \<or> hd s = 69) \<and>
       (let r = tl s;
            ds = (if r \<noteq> [] \<and> (hd r = 43 \<or> hd r = 45) then tl r else r)
        in ds \<noteq> [] \<and> list_all isDigit ds)))"

definition valid_frac :: "jsstring \<Rightarrow> bool" where
  "valid_frac s =
     (if s \<noteq> [] \<and> hd s = 46
      then takeWhile isDigit (tl s) \<noteq> [] \<and> valid_exp (dropWhile isDigit (tl s))
      else valid_exp s)"

definition valid_number :: "jsstring \<Rightarrow> bool" where
  "valid_number s =
     (let u = (if s \<noteq> [] \<and> hd s = 45 then tl s else s) in
      u \<noteq> [] \<and>
      (if hd u = 48 then valid_frac (tl u)
       else 49 \<le> hd u \<and> hd u \<le> 57 \<and> valid_frac (dropWhile isDigit (tl u))))"

text \<open>
  Recursive descent over the grammar of ECMA-404. \<open>parse_value\<close> starts at the first
  character of a value, \<open>parse_elements\<close> at the first element of a non-empty array,
  \<open>parse_members\<close> at the first key of a non-empty object. The tests
  \<open>length r < length s\<close> on the rest that a nested call returns are always true
  (\<open>parse_shorter\<close> below, and the equations \<open>parse_elements_plain\<close> and
  \<open>parse_members_plain\<close> without them); they are what the termination proof reads.
\<close>

function parse_value :: "jsstring \<Rightarrow> (json \<times> jsstring) option"
  and parse_elements :: "json list \<Rightarrow> jsstring \<Rightarrow> (json \<times> jsstring) option"
  and parse_members :: "(jsstring \<times> json) list \<Rightarrow> jsstring \<Rightarrow> (json \<times> jsstring) option"
where
  "parse_value s =
     (if s = [] then None
      else if hd s = 34 then
        (case parse_chars [] (tl s) of
           None \<Rightarrow> None
         | Some (str, r) \<Rightarrow> Some (JString str, r))
      else if hd s = 123 then
        (let r = skip_ws (tl s) in
         if r \<noteq> [] \<and> hd r = 125 then Some (JObject [], tl r) else parse_members [] r)
      else if hd s = 91 then
        (let r = skip_ws (tl s) in
         if r \<noteq> [] \<and> hd r = 93 then Some (JArray [], tl r) else parse_elements [] r)
      else if startsWith s (js ''true'') then Some (JBool True, drop 4 s)
      else if startsWith s (js ''false'') then Some (JBool False, drop 5 s)
      else if startsWith s (js ''null'') then Some (JNull, drop 4 s)
      else
        (let lexeme = takeWhile isNumberChar s in
         if valid_number lexeme then Some (JNumber lexeme, dropWhile isNumberChar s) else None))"
| "parse_elements acc s =
     (case parse_value s of
        None \<Rightarrow> None
      | Some (v, r) \<Rightarrow>
          if length r < length s then
            (let r1 = skip_ws r in
             if r1 = [] then None
             else if hd r1 = 44 then parse_elements (acc @ [v]) (skip_ws (tl r1))
             else if hd r1 = 93 then Some (JArray (acc @ [v]), tl r1)
             else None)
          else None)"
| "parse_members acc s =
     (if s \<noteq> [] \<and> hd s = 34 then
        (case parse_chars [] (tl s) of
           None \<Rightarrow> None
         | Some (k, r) \<Rightarrow>
             (let r1 = skip_ws r in
              if r1 \<noteq> [] \<and> hd r1 = 58 then
                (case parse_value (skip_ws (tl r1)) of
                   None \<Rightarrow> None
                 | Some (v, r2) \<Rightarrow>
                     if length r2 < length s then
                       (let r3 = skip_ws r2 in
                        if r3 = [] then None
                        else if hd r3 = 44 then parse_members (AList.update k v acc) (skip_ws (tl r3))
                        else if hd r3 = 125 then Some (JObject (AList.update k v acc), tl r3)
                        else None)
                     else None)
              else None))
      else None)"
  by pat_completeness auto

termination
proof -
  have parse_chars_shorter: "length r < length s" if "parse_chars acc s = Some (k, r)"
    for acc s k r
    using that
    by (induction acc s rule: parse_chars.induct) (auto split: if_splits option.splits)
  have length_skip_ws: "length (skip_ws s) \<le> length s" for s
    by (simp add: skip_ws_def length_dropWhile_le)
  show ?thesis
  proof (relation "measure (\<lambda>x. case x of
            Inl s \<Rightarrow> 2 * length s
          | Inr (Inl (acc, s)) \<Rightarrow> 2 * length s + 1
          | Inr (Inr (acc, s)) \<Rightarrow> 2 * length s + 1)", goal_cases)
    case 1
    show ?case by simp
  next
    case (2 s r)
    have "length (skip_ws (tl s)) \<le> length (tl s)" by (rule length_skip_ws)
    with 2 show ?case by (cases s) auto
  next
    case (3 s r)
    have "length (skip_ws (tl s)) \<le> length (tl s)" by (rule length_skip_ws)
    with 3 show ?case by (cases s) auto
  next
    case (4 acc s)
    show ?case by simp
  next
    case (5 acc s x2 v r r1)
    have "length (skip_ws (tl r1)) \<le> length (tl r1)" by (rule length_skip_ws)
    moreover have "length r1 \<le> length r" using 5 by (simp add: length_skip_ws)
    ultimately show ?case using 5 by (cases r1) auto
  next
    case (6 acc s x2 k r r1)
    have a: "length r < length (tl s)" using 6 by (auto dest: parse_chars_shorter)
    have b: "length (skip_ws (tl r1)) \<le> length (tl r1)" by (rule length_skip_ws)
    have c: "length r1 \<le> length r" using 6 by (simp add: length_skip_ws)
    from a b c 6 show ?case by (cases r1; cases s) auto
  next
    case (7 acc s x2 k r r1 x2a v r2 r3)
    have b: "length (skip_ws (tl r3)) \<le> length (tl r3)" by (rule length_skip_ws)
    have c: "length r3 \<le> length r2" using 7 by (simp add: length_skip_ws)
    from b c 7 show ?case by (cases r3) auto
  qed
qed

declare parse_value.simps [simp del] parse_elements.simps [simp del] parse_members.simps [simp del]

definition JSON_parse :: "jsstring \<Rightarrow> json option" where
  "JSON_parse s =
     (case parse_value (skip_ws s) of
        None \<Rightarrow> None
      | Some (v, r) \<Rightarrow> if skip_ws r = [] then Some v else None)"

section \<open>Schema validation (zod)\<close>

text \<open>
  The three schema constructors that \<^verbatim>\<open>CodexOutputSchema\<close> uses. \<^verbatim>\<open>z.object\<close> is in its
  default mode: every key of the shape must be present with a value its schema accepts,
  and the parsed object has the keys of the shape and no other (keys the shape does
  not name are stripped).
\<close>

datatype zschema =
    ZString
  | ZArray zschema
  | ZObject "(jsstring \<times> zschema) list"

fun zparse :: "zschema \<Rightarrow> json \<Rightarrow> json option" where
  "zparse ZString j = (case j of JString s \<Rightarrow> Some (JString s) | _ \<Rightarrow> None)"
| "zparse (ZArray el) j =
     (case j of
        JArray xs \<Rightarrow> map_option JArray (those (map (zparse el) xs))
      | _ \<Rightarrow> None)"
| "zparse (ZObject shape) j =
     (case j of
        JObject kvs \<Rightarrow>
          map_option JObject
            (those (map (\<lambda>entry.
               case map_of kvs (fst entry) of
                 None \<Rightarrow> None
               | Some v \<Rightarrow> map_option (Pair (fst entry)) (zparse (snd entry) v)) shape))
      | _ \<Rightarrow> None)"

definition CodexOutputSchema :: zschema where
  "CodexOutputSchema =
     ZObject
       [(js ''improvedPrompt'', ZString),
        (js ''rationale'', ZString),
        (js ''risks'', ZArray ZString),
        (js ''tags'', ZArray ZString),
        (js ''metadata'',
           ZObject
             [(js ''sections'', ZArray ZString),
              (js ''acceptanceCriteria'', ZArray ZString),
              (js ''checklist'', ZArray ZString)])]"

text \<open>
  \<^verbatim>\<open>validated as RefinedPromptOutput\<close>: the parsed object read through the interface.
\<close>

definition field :: "json \<Rightarrow> jsstring \<Rightarrow> json option" where
  "field j k = (case j of JObject kvs \<Rightarrow> map_of kvs k | _ \<Rightarrow> None)"

definition stringOf :: "json \<Rightarrow> jsstring option" where
  "stringOf j = (case j of JString s \<Rightarrow> Some s | _ \<Rightarrow> None)"

definition stringsOf :: "json \<Rightarrow> jsstring list option" where
  "stringsOf j = (case j of JArray xs \<Rightarrow> those (map stringOf xs) | _ \<Rightarrow> None)"

definition asPromptMetadata :: "json \<Rightarrow> PromptMetadata option" where
  "asPromptMetadata j =
     do {
       s \<leftarrow> Option.bind (field j (js ''sections'')) stringsOf;
       a \<leftarrow> Option.bind (field j (js ''acceptanceCriteria'')) stringsOf;
       c \<leftarrow> Option.bind (field j (js ''checklist'')) stringsOf;
       Some \<lparr> sections = s, acceptanceCriteria = a, checklist = c \<rparr>
     }"

definition asRefinedPromptOutput :: "json \<Rightarrow> RefinedPromptOutput option" where
  "asRefinedPromptOutput j =
     do {
       i \<leftarrow> Option.bind (field j (js ''improvedPrompt'')) stringOf;
       r \<leftarrow> Option.bind (field j (js ''rationale'')) stringOf;
       rs \<leftarrow> Option.bind (field j (js ''risks'')) stringsOf;
       ts \<leftarrow> Option.bind (field j (js ''tags'')) stringsOf;
       m \<leftarrow> Option.bind (field j (js ''metadata'')) asPromptMetadata;
       Some \<lparr> improvedPrompt = i, rationale = r, risks = rs, tags = ts, metadata = m \<rparr>
     }"

section \<open>Output reconciliation (codex.ts)\<close>

record CodexRequest =
  prompt :: jsstring
  request_context :: "jsstring option"
  request_tags :: "jsstring list option"
  model :: "jsstring option"

record CodexCLIError =
  message :: jsstring
  code :: "int option"

text \<open>
  \<^verbatim>\<open>output.match(/\{[\s\S]*\}/)\<close>: the class \<^verbatim>\<open>[\s\S]\<close> accepts every code unit and the
  star is greedy, so the match runs from the first opening brace to the last closing
  brace after it; there is no match when no closing brace follows the first opening one.
\<close>

definition matchBraces :: "jsstring \<Rightarrow> jsstring option" where
  "matchBraces output =
     (let fromOpen = dropWhile (\<lambda>c. c \<noteq> 123) output;
          toClose = rev (dropWhile (\<lambda>c. c \<noteq> 125) (rev fromOpen))
      in if toClose = [] then None else Some toClose)"

definition tryParseJSONOutput :: "jsstring \<Rightarrow> RefinedPromptOutput option" where
  "tryParseJSONOutput output =
     (case matchBraces output of
        None \<Rightarrow> None
      | Some jsonMatch \<Rightarrow>
          (case JSON_parse jsonMatch of
             None \<Rightarrow> None
           | Some parsedOutput \<Rightarrow>
               (case zparse CodexOutputSchema parsedOutput of
                  None \<Rightarrow> None
                | Some validated \<Rightarrow> asRefinedPromptOutput validated)))"

text \<open>\<^verbatim>\<open>tags || []\<close>\<close>

definition orEmpty :: "'a list option \<Rightarrow> 'a list" where
  "orEmpty xs = (case xs of None \<Rightarrow> [] | Some ys \<Rightarrow> ys)"

text \<open>
  \<^verbatim>\<open>a || b\<close> on strings, where \<open>None\<close> is \<^verbatim>\<open>undefined\<close>: the empty string and
  \<^verbatim>\<open>undefined\<close> are falsy.
\<close>

definition orElse :: "jsstring option \<Rightarrow> jsstring \<Rightarrow> jsstring" where
  "orElse a b = (case a of None \<Rightarrow> b | Some s \<Rightarrow> if s = [] then b else s)"

definition first :: "'a list \<Rightarrow> 'a option" where
  "first xs = (case xs of [] \<Rightarrow> None | x # _ \<Rightarrow> Some x)"

text \<open>
  \<^verbatim>\<open>line.length > originalPrompt.length * 0.8\<close>. The lengths are integers far below
  \<open>2 ^ 50\<close> (engines cap the length of a string near \<open>2 ^ 30\<close>). The double \<open>0.8\<close>
  exceeds \<open>4 / 5\<close> by the relative error \<open>2 ^ -54\<close>, so for a prompt of length \<open>n\<close> the
  rounded product is \<open>4 * n / 5\<close> itself when that is an integer, and otherwise lies
  within \<open>1 / 8\<close> of a number that is at least \<open>1 / 5\<close> away from every integer. An
  integer \<open>m\<close> is therefore above the product exactly when \<open>5 * m\<close> is above \<open>4 * n\<close>,
  and the test is the integer comparison below.
\<close>

definition substantial :: "jsstring \<Rightarrow> jsstring \<Rightarrow> bool" where
  "substantial originalPrompt line \<longleftrightarrow> 5 * length line > 4 * length originalPrompt"

definition createFallbackOutput ::
  "PromptRules \<Rightarrow> jsstring \<Rightarrow> jsstring \<Rightarrow> jsstring option \<Rightarrow> jsstring list option \<Rightarrow> RefinedPromptOutput" where
  "createFallbackOutput rules originalPrompt codexOutput context' tags' =
     (let template = detectTemplate originalPrompt;
          suggestedTags = suggestTags rules originalPrompt;
          identifiedRisks = identifyRisks originalPrompt;
          lines = filter (\<lambda>line. trim line \<noteq> []) (split_nl codexOutput);
          improvedPrompt' =
            (if length lines > 0
             then orElse (find (substantial originalPrompt) lines)
                    (orElse (first lines) originalPrompt)
             else originalPrompt)
      in \<lparr> improvedPrompt = improvedPrompt',
           rationale = js ''Prompt refinado utilizando template padr'' @ [227] @ js ''o devido a limita''
             @ [231, 245] @ js ''es na sa'' @ [237] @ js ''da do Codex CLI.'',
           risks = (if length identifiedRisks > 0 then identifiedRisks
                    else [js ''Verificar implementa'' @ [231, 227] @ js ''o cuidadosamente'']),
           tags = take 8 (suggestedTags @ orEmpty tags'),
           metadata = getTemplateMetadata rules template \<rparr>)"

definition offlineNote :: jsstring where
  "offlineNote = [10, 10] @ js ''[NOTA: Prompt processado em modo offline devido a erro no Codex CLI]''"

definition offlineRisk :: jsstring where
  "offlineRisk = js ''Codex CLI indispon'' @ [237] @ js ''vel - usando an'' @ [225] @ js ''lise offline''"

definition createErrorFallbackOutput ::
  "PromptRules \<Rightarrow> jsstring \<Rightarrow> CodexCLIError \<Rightarrow> jsstring option \<Rightarrow> jsstring list option \<Rightarrow> RefinedPromptOutput" where
  "createErrorFallbackOutput rules originalPrompt error context' tags' =
     (let template = detectTemplate originalPrompt;
          suggestedTags = suggestTags rules originalPrompt;
          identifiedRisks = identifyRisks originalPrompt
      in \<lparr> improvedPrompt = originalPrompt @ offlineNote,
           rationale = js ''N'' @ [227] @ js ''o foi poss'' @ [237] @ js ''vel conectar com o Codex CLI (''
             @ message error
             @ js ''). Utilizando an'' @ [225] @ js ''lise local baseada em templates.'',
           risks = offlineRisk # identifiedRisks,
           tags = take 8 ([js ''fallback'', js ''offline''] @ suggestedTags @ orEmpty tags'),
           metadata = getTemplateMetadata rules template \<rparr>)"

definition enrichOutput :: "PromptRules \<Rightarrow> RefinedPromptOutput \<Rightarrow> jsstring \<Rightarrow> RefinedPromptOutput" where
  "enrichOutput rules result originalPrompt =
     (let r1 = (if improvedPrompt result = [] \<or> trim (improvedPrompt result) = []
                then result\<lparr>improvedPrompt := originalPrompt\<rparr> else result);
          r2 = (if rationale r1 = [] \<or> trim (rationale r1) = []
                then r1\<lparr>rationale := js ''Prompt processado com refinamento autom'' @ [225] @ js ''tico.''\<rparr>
                else r1);
          r3 = (if length (risks r2) = 0
                then r2\<lparr>risks := [js ''Validar implementa'' @ [231, 227] @ js ''o cuidadosamente'']\<rparr>
                else r2);
          r4 = (if length (tags r3) = 0
                then r3\<lparr>tags := suggestTags rules originalPrompt\<rparr>
                else r3);
          m1 = (if length (sections (metadata r4)) = 0
                then (metadata r4)\<lparr>sections := [js ''Plan'', js ''Risks'', js ''Next actions'', js ''Tests'']\<rparr>
                else metadata r4);
          m2 = (if length (acceptanceCriteria m1) = 0
                then m1\<lparr>acceptanceCriteria :=
                       [js ''Solu'' @ [231, 227] @ js ''o implementada corretamente'',
                        js ''Testes executados com sucesso'',
                        js ''Documenta'' @ [231, 227] @ js ''o atualizada'']\<rparr>
                else m1);
          m3 = (if length (checklist m2) = 0
                then m2\<lparr>checklist :=
                       [js ''Revisar requisitos'',
                        js ''Implementar solu'' @ [231, 227] @ js ''o'',
                        js ''Executar testes'',
                        js ''Validar resultado'']\<rparr>
                else m2)
      in r4\<lparr>metadata := m3\<rparr>)"

section \<open>Subprocess invocation (executeCodexCommand)\<close>

text \<open>
  The promise executor registers callbacks and returns; what happens next is the
  sequence of events that the child process and the timer deliver. The model is the
  state the callbacks share and one transition per event. A promise settles once:
  later calls of \<^verbatim>\<open>resolve\<close> and \<^verbatim>\<open>reject\<close> change nothing. The text written to the
  standard input of the process does not enter the result and is left out.
\<close>

datatype event =
    StdoutData jsstring
  | StderrData jsstring
  | Close "int option"
  | SpawnError jsstring
  | TimerFires

record invocation =
  stdout :: jsstring
  stderr :: jsstring
  settled :: "(CodexCLIError + jsstring) option"
  timerArmed :: bool
  signals :: "jsstring list"

fun showNat :: "nat \<Rightarrow> jsstring" where
  "showNat n = (if n < 10 then [48 + n] else showNat (n div 10) @ [48 + n mod 10])"

declare showNat.simps [simp del]

text \<open>The exit code inside a template literal; \<open>None\<close> is \<^verbatim>\<open>null\<close> (the process was killed by a signal).\<close>

definition showCode :: "int option \<Rightarrow> jsstring" where
  "showCode c =
     (case c of
        None \<Rightarrow> js ''null''
      | Some i \<Rightarrow> if i < 0 then 45 # showNat (nat (- i)) else showNat (nat i))"

definition settle :: "(CodexCLIError + jsstring) \<Rightarrow> invocation \<Rightarrow> invocation" where
  "settle v p = (case settled p of None \<Rightarrow> p\<lparr>settled := Some v\<rparr> | Some _ \<Rightarrow> p)"

definition timeoutError :: CodexCLIError where
  "timeoutError = \<lparr> message = js ''Codex CLI operation timed out'', code = None \<rparr>"

definition spawnError :: "jsstring \<Rightarrow> CodexCLIError" where
  "spawnError m = \<lparr> message = js ''Failed to spawn Codex CLI: '' @ m, code = None \<rparr>"

definition exitError :: "int option \<Rightarrow> jsstring \<Rightarrow> CodexCLIError" where
  "exitError c err =
     \<lparr> message = js ''Codex CLI failed with exit code '' @ showCode c @ js '': '' @ err,
       code = c \<rparr>"

fun step :: "invocation \<Rightarrow> event \<Rightarrow> invocation" where
  "step p (StdoutData d) = p\<lparr>stdout := stdout p @ d\<rparr>"
| "step p (StderrData d) = p\<lparr>stderr := stderr p @ d\<rparr>"
| "step p (Close c) =
     (if c = Some 0 then settle (Inr (trim (stdout p))) p
      else settle (Inl (exitError c (stderr p))) p)
     \<lparr>timerArmed := False\<rparr>"
| "step p (SpawnError m) = settle (Inl (spawnError m)) p"
| "step p TimerFires =
     (if timerArmed p
      then settle (Inl timeoutError) (p\<lparr>signals := signals p @ [js ''SIGTERM''], timerArmed := False\<rparr>)
      else p)"

definition spawned :: invocation where
  "spawned = \<lparr> stdout = [], stderr = [], settled = None, timerArmed = True, signals = [] \<rparr>"

definition run :: "event list \<Rightarrow> invocation" where
  "run events = foldl step spawned events"

text \<open>\<open>None\<close>: the promise is still pending after the events.\<close>

definition executeCodexCommand :: "event list \<Rightarrow> (CodexCLIError + jsstring) option" where
  "executeCodexCommand events = settled (run events)"

section \<open>The orchestrator (runCodexCLI)\<close>

definition runCodexCLI :: "PromptRules \<Rightarrow> CodexRequest \<Rightarrow> event list \<Rightarrow> RefinedPromptOutput option" where
  "runCodexCLI rules request events =
     (case executeCodexCommand events of
        None \<Rightarrow> None
      | Some (Inr codexOutput) \<Rightarrow>
          (let result =
                 (case tryParseJSONOutput codexOutput of
                    None \<Rightarrow> createFallbackOutput rules (prompt request) codexOutput
                              (request_context request) (request_tags request)
                  | Some parsed \<Rightarrow> parsed)
           in Some (enrichOutput rules result (prompt request)))
      | Some (Inl error) \<Rightarrow>
          Some (createErrorFallbackOutput rules (prompt request) error
                  (request_context request) (request_tags request)))"

section \<open>Statements of the specification and sample data\<close>

text \<open>
  The choice of \<open>improvedPrompt\<close> as the specification words it: the first non-empty line
  of the raw output that is at least 80 percent as long as the original prompt, else the
  original prompt. It is compared with \<open>createFallbackOutput\<close> below.
\<close>

definition spec_improvedPrompt :: "jsstring \<Rightarrow> jsstring \<Rightarrow> jsstring" where
  "spec_improvedPrompt originalPrompt rawOutput =
     (case find (\<lambda>line. line \<noteq> [] \<and> 4 * length originalPrompt \<le> 5 * length line)
             (split_nl rawOutput) of
        None \<Rightarrow> originalPrompt
      | Some line \<Rightarrow> line)"


text \<open>The standard output and the result of end-to-end scenario B.\<close>

definition scenarioB_stdout :: jsstring where
  "scenarioB_stdout =
     js ''{'' @ [34] @ js ''improvedPrompt'' @ [34] @ js '':'' @ [34] @ js ''x'' @ [34] @ js '','' @
     [34] @ js ''rationale'' @ [34] @ js '':'' @ [34] @ js ''y'' @ [34] @ js '','' @
     [34] @ js ''risks'' @ [34] @ js '':['' @ [34] @ js ''r1'' @ [34] @ js ''],'' @
     [34] @ js ''tags'' @ [34] @ js '':['' @ [34] @ js ''t1'' @ [34] @ js ''],'' @
     [34] @ js ''metadata'' @ [34] @ js '':{'' @
     [34] @ js ''sections'' @ [34] @ js '':['' @ [34] @ js ''s1'' @ [34] @ js ''],'' @
     [34] @ js ''acceptanceCriteria'' @ [34] @ js '':['' @ [34] @ js ''a1'' @ [34] @ js ''],'' @
     [34] @ js ''checklist'' @ [34] @ js '':['' @ [34] @ js ''c1'' @ [34] @ js '']}}''"

definition scenarioB_object :: json where
  "scenarioB_object =
     JObject
       [(js ''improvedPrompt'', JString (js ''x'')),
        (js ''rationale'', JString (js ''y'')),
        (js ''risks'', JArray [JString (js ''r1'')]),
        (js ''tags'', JArray [JString (js ''t1'')]),
        (js ''metadata'', JObject
           [(js ''sections'', JArray [JString (js ''s1'')]),
            (js ''acceptanceCriteria'', JArray [JString (js ''a1'')]),
            (js ''checklist'', JArray [JString (js ''c1'')])])]"

definition scenarioB_result :: RefinedPromptOutput where
  "scenarioB_result =
     \<lparr> improvedPrompt = js ''x'', rationale = js ''y'', risks = [js ''r1''], tags = [js ''t1''],
       metadata = \<lparr> sections = [js ''s1''], acceptanceCriteria = [js ''a1''], checklist = [js ''c1''] \<rparr> \<rparr>"

text \<open>
  The object of scenario B with two keys the schema does not name (\<open>note\<close> at the top,
  \<open>extra\<close> inside the metadata), wrapped in narrative text.
\<close>

definition annotated_json :: jsstring where
  "annotated_json =
     js ''{'' @ [34] @ js ''improvedPrompt'' @ [34] @ js '':'' @ [34] @ js ''x'' @ [34] @ js '','' @
     [34] @ js ''note'' @ [34] @ js '':42,'' @
     [34] @ js ''rationale'' @ [34] @ js '':'' @ [34] @ js ''y'' @ [34] @ js '','' @
     [34] @ js ''risks'' @ [34] @ js '':['' @ [34] @ js ''r1'' @ [34] @ js ''],'' @
     [34] @ js ''tags'' @ [34] @ js '':['' @ [34] @ js ''t1'' @ [34] @ js ''],'' @
     [34] @ js ''metadata'' @ [34] @ js '':{'' @
     [34] @ js ''sections'' @ [34] @ js '':['' @ [34] @ js ''s1'' @ [34] @ js ''],'' @
     [34] @ js ''acceptanceCriteria'' @ [34] @ js '':['' @ [34] @ js ''a1'' @ [34] @ js ''],'' @
     [34] @ js ''checklist'' @ [34] @ js '':['' @ [34] @ js ''c1'' @ [34] @ js ''],'' @
     [34] @ js ''extra'' @ [34] @ js '':null}}''"

definition annotated_stdout :: jsstring where
  "annotated_stdout = js ''Result: '' @ annotated_json @ js '' done''"

definition annotated_metadata :: "(jsstring \<times> json) list" where
  "annotated_metadata =
     [(js ''sections'', JArray [JString (js ''s1'')]),
      (js ''acceptanceCriteria'', JArray [JString (js ''a1'')]),
      (js ''checklist'', JArray [JString (js ''c1'')]),
      (js ''extra'', JNull)]"

definition annotated_object :: "(jsstring \<times> json) list" where
  "annotated_object =
     [(js ''improvedPrompt'', JString (js ''x'')),
      (js ''note'', JNumber (js ''42'')),
      (js ''rationale'', JString (js ''y'')),
      (js ''risks'', JArray [JString (js ''r1'')]),
      (js ''tags'', JArray [JString (js ''t1'')]),
      (js ''metadata'', JObject annotated_metadata)]"

section \<open>Evaluation rules and basic facts\<close>

lemmas str_eval = js_def toLowerCase_def lowerUnit_def includesAny_def pushIf_def

lemmas json_eval = JSON_parse_def parse_value.simps parse_elements.simps parse_members.simps
  skip_ws_def isJsonWs_def valid_number_def valid_frac_def valid_exp_def isNumberChar_def
  isDigit_def hex4_def hexDigit_def escapeChar_def Let_def js_def

lemmas zod_eval = CodexOutputSchema_def asRefinedPromptOutput_def asPromptMetadata_def
  field_def stringOf_def stringsOf_def js_def

lemma trim_Nil: "trim [] = []"
  by (simp add: trim_def)

lemma find_Some_mem: "find P xs = Some x \<Longrightarrow> x \<in> set xs"
  by (induction xs) (auto split: if_splits)

subsection \<open>The parser consumes input\<close>

lemma parse_chars_shorter: "parse_chars acc s = Some (k, r) \<Longrightarrow> length r < length s"
  by (induction acc s rule: parse_chars.induct) (auto split: if_splits option.splits)

lemma length_skip_ws: "length (skip_ws s) \<le> length s"
  by (simp add: skip_ws_def length_dropWhile_le)

lemma startsWith_length: "startsWith s pat \<Longrightarrow> length pat \<le> length s"
  by (induction s pat rule: startsWith.induct) auto

lemma dropWhile_shorter: "takeWhile P s \<noteq> [] \<Longrightarrow> length (dropWhile P s) < length s"
  by (cases s) (auto simp add: less_Suc_eq_le length_dropWhile_le split: if_splits)

lemma valid_number_nonempty: "valid_number s \<Longrightarrow> s \<noteq> []"
  by (auto simp add: valid_number_def Let_def split: if_splits)

lemma parse_shorter:
  "(\<forall>v r. parse_value s = Some (v, r) \<longrightarrow> length r < length s)"
  "(\<forall>v r. parse_elements acc s = Some (v, r) \<longrightarrow> length r < length s)"
  "(\<forall>v r. parse_members macc s = Some (v, r) \<longrightarrow> length r < length s)"
proof (induction s and acc s and macc s rule: parse_value_parse_elements_parse_members.induct)
  case (1 s)
  show ?case
  proof (intro allI impI)
    fix v r
    assume a: "parse_value s = Some (v, r)"
    then have ne: "s \<noteq> []" by (auto simp add: parse_value.simps [of s])
    have sk: "length (skip_ws (tl s)) < length s"
      using ne length_skip_ws [of "tl s"] by (cases s) auto
    consider (str) "hd s = 34" | (obj) "hd s \<noteq> 34" "hd s = 123"
      | (arr) "hd s \<noteq> 34" "hd s \<noteq> 123" "hd s = 91"
      | (other) "hd s \<noteq> 34" "hd s \<noteq> 123" "hd s \<noteq> 91" by blast
    then show "length r < length s"
    proof cases
      case str
      with a ne obtain str' where "parse_chars [] (tl s) = Some (str', r)"
        by (auto simp add: parse_value.simps [of s] split: option.splits)
      then have "length r < length (tl s)" by (rule parse_chars_shorter)
      then show ?thesis by simp
    next
      case obj
      show ?thesis
      proof (cases "skip_ws (tl s) \<noteq> [] \<and> hd (skip_ws (tl s)) = 125")
        case True
        with a ne obj have "r = tl (skip_ws (tl s))"
          by (auto simp add: parse_value.simps [of s] Let_def)
        with sk True show ?thesis by (cases "skip_ws (tl s)") auto
      next
        case False
        with a ne obj have "parse_members [] (skip_ws (tl s)) = Some (v, r)"
          by (auto simp add: parse_value.simps [of s] Let_def)
        with "1.IH"(1) [OF ne obj(1) obj(2) refl False]
        have "length r < length (skip_ws (tl s))" by blast
        with sk show ?thesis by simp
      qed
    next
      case arr
      show ?thesis
      proof (cases "skip_ws (tl s) \<noteq> [] \<and> hd (skip_ws (tl s)) = 93")
        case True
        with a ne arr have "r = tl (skip_ws (tl s))"
          by (auto simp add: parse_value.simps [of s] Let_def)
        with sk True show ?thesis by (cases "skip_ws (tl s)") auto
      next
        case False
        with a ne arr have "parse_elements [] (skip_ws (tl s)) = Some (v, r)"
          by (auto simp add: parse_value.simps [of s] Let_def)
        with "1.IH"(2) [OF ne arr(1) arr(2) arr(3) refl False]
        have "length r < length (skip_ws (tl s))" by blast
        with sk show ?thesis by simp
      qed
    next
      case other
      with a ne have "(startsWith s (js ''true'') \<and> r = drop 4 s)
          \<or> (startsWith s (js ''false'') \<and> r = drop 5 s)
          \<or> (startsWith s (js ''null'') \<and> r = drop 4 s)
          \<or> (valid_number (takeWhile isNumberChar s) \<and> r = dropWhile isNumberChar s)"
        by (auto simp add: parse_value.simps [of s] Let_def split: if_splits)
      then show ?thesis
        using ne startsWith_length [of s] dropWhile_shorter [of isNumberChar s] valid_number_nonempty
        by (auto simp add: js_def)
    qed
  qed
next
  case (2 acc s)
  show ?case
  proof (intro allI impI)
    fix v r
    assume a: "parse_elements acc s = Some (v, r)"
    then obtain v1 r1 where p: "parse_value s = Some (v1, r1)" and l: "length r1 < length s"
      by (auto simp add: parse_elements.simps [of acc s] split: option.splits if_splits)
    have sk: "length (skip_ws r1) \<le> length r1" by (rule length_skip_ws)
    from a p l have ne: "skip_ws r1 \<noteq> []"
      by (auto simp add: parse_elements.simps [of acc s] Let_def split: if_splits)
    show "length r < length s"
    proof (cases "hd (skip_ws r1) = 44")
      case True
      with a p l ne have "parse_elements (acc @ [v1]) (skip_ws (tl (skip_ws r1))) = Some (v, r)"
        by (auto simp add: parse_elements.simps [of acc s] Let_def)
      with "2.IH"(2) [OF p refl l refl ne True]
      have "length r < length (skip_ws (tl (skip_ws r1)))" by blast
      with length_skip_ws [of "tl (skip_ws r1)"] sk l show ?thesis by simp
    next
      case False
      with a p l ne have "r = tl (skip_ws r1)"
        by (auto simp add: parse_elements.simps [of acc s] Let_def split: if_splits)
      with sk l show ?thesis by simp
    qed
  qed
next
  case (3 macc s)
  show ?case
  proof (intro allI impI)
    fix v r
    assume a: "parse_members macc s = Some (v, r)"
    then have s: "s \<noteq> []" "hd s = 34"
      by (auto simp add: parse_members.simps [of macc s] split: if_splits)
    with a obtain k r0 where pc: "parse_chars [] (tl s) = Some (k, r0)"
      by (auto simp add: parse_members.simps [of macc s] split: option.splits)
    with a s have c: "skip_ws r0 \<noteq> []" "hd (skip_ws r0) = 58"
      by (auto simp add: parse_members.simps [of macc s] Let_def split: if_splits)
    with a s pc obtain v1 r2 where pv: "parse_value (skip_ws (tl (skip_ws r0))) = Some (v1, r2)"
      and l: "length r2 < length s"
      by (auto simp add: parse_members.simps [of macc s] Let_def split: option.splits if_splits)
    have sk: "length (skip_ws r2) \<le> length r2" by (rule length_skip_ws)
    from a s pc c pv l have ne: "skip_ws r2 \<noteq> []"
      by (auto simp add: parse_members.simps [of macc s] Let_def split: if_splits)
    show "length r < length s"
    proof (cases "hd (skip_ws r2) = 44")
      case True
      with a s pc c pv l ne
      have "parse_members (AList.update k v1 macc) (skip_ws (tl (skip_ws r2))) = Some (v, r)"
        by (auto simp add: parse_members.simps [of macc s] Let_def)
      then have "length r < length (skip_ws (tl (skip_ws r2)))"
        using "3.IH"(2) s pc c pv l ne True by blast
      with length_skip_ws [of "tl (skip_ws r2)"] sk l show ?thesis by simp
    next
      case False
      with a s pc c pv l ne have "r = tl (skip_ws r2)"
        by (auto simp add: parse_members.simps [of macc s] Let_def split: if_splits)
      with sk l show ?thesis by simp
    qed
  qed
qed

text \<open>The two recursive equations without the length tests.\<close>

lemma parse_elements_plain:
  "parse_elements acc s =
     (case parse_value s of
        None \<Rightarrow> None
      | Some (v, r) \<Rightarrow>
          (let r1 = skip_ws r in
           if r1 = [] then None
           else if hd r1 = 44 then parse_elements (acc @ [v]) (skip_ws (tl r1))
           else if hd r1 = 93 then Some (JArray (acc @ [v]), tl r1)
           else None))"
  using parse_shorter(1) [of s]
  by (subst parse_elements.simps) (auto split: option.splits)

lemma parse_members_plain:
  "parse_members acc s =
     (if s \<noteq> [] \<and> hd s = 34 then
        (case parse_chars [] (tl s) of
           None \<Rightarrow> None
         | Some (k, r) \<Rightarrow>
             (let r1 = skip_ws r in
              if r1 \<noteq> [] \<and> hd r1 = 58 then
                (case parse_value (skip_ws (tl r1)) of
                   None \<Rightarrow> None
                 | Some (v, r2) \<Rightarrow>
                     (let r3 = skip_ws r2 in
                      if r3 = [] then None
                      else if hd r3 = 44 then parse_members (AList.update k v acc) (skip_ws (tl r3))
                      else if hd r3 = 125 then Some (JObject (AList.update k v acc), tl r3)
                      else None))
              else None))
      else None)"
proof -
  have "length r2 < length s"
    if "s \<noteq> []" "parse_chars [] (tl s) = Some (k, r)"
      "parse_value (skip_ws (tl (skip_ws r))) = Some (v, r2)" for k r v r2
  proof -
    have "length r < length (tl s)" using that(2) by (rule parse_chars_shorter)
    moreover have "length r2 < length (skip_ws (tl (skip_ws r)))"
      using parse_shorter(1) that(3) by blast
    moreover have "length (skip_ws (tl (skip_ws r))) \<le> length (tl (skip_ws r))"
      by (rule length_skip_ws)
    moreover have "length (skip_ws r) \<le> length r" by (rule length_skip_ws)
    ultimately show ?thesis by simp
  qed
  then show ?thesis
    by (subst parse_members.simps) (auto simp add: Let_def split: option.splits)
qed

subsection \<open>Fields of the results\<close>

lemma createFallbackOutput_tags:
  "tags (createFallbackOutput rules p out ctx tgs) = take 8 (suggestTags rules p @ orEmpty tgs)"
  by (simp add: createFallbackOutput_def Let_def)

lemma createFallbackOutput_improvedPrompt:
  "improvedPrompt (createFallbackOutput rules p out ctx tgs) =
     (let lines = filter (\<lambda>line. trim line \<noteq> []) (split_nl out) in
      if length lines > 0
      then orElse (find (substantial p) lines) (orElse (first lines) p)
      else p)"
  by (simp add: createFallbackOutput_def Let_def)




lemma enrichOutput_tags:
  "tags (enrichOutput rules r p) = (if length (tags r) = 0 then suggestTags rules p else tags r)"
  by (simp add: enrichOutput_def Let_def)

text \<open>Enrichment changes nothing when every field has content.\<close>

lemma enrichOutput_complete:
  assumes "trim (improvedPrompt r) \<noteq> []" "trim (rationale r) \<noteq> []" "risks r \<noteq> []"
    "tags r \<noteq> []" "sections (metadata r) \<noteq> []"
    "acceptanceCriteria (metadata r) \<noteq> []" "checklist (metadata r) \<noteq> []"
  shows "enrichOutput rules r p = r"
proof -
  have "improvedPrompt r \<noteq> []" "rationale r \<noteq> []"
    using assms(1,2) trim_Nil by auto
  with assms show ?thesis
    by (simp add: enrichOutput_def Let_def)
qed

text \<open>
  Whatever result enters, enrichment leaves every field but the tags with content (the
  prompt is not empty); the tags are then \<open>suggestTags\<close> of the prompt when they were
  empty.
\<close>

lemma enrichOutput_other_fields:
  assumes "p \<noteq> []"
  shows "improvedPrompt (enrichOutput rules r p) \<noteq> []"
    and "rationale (enrichOutput rules r p) \<noteq> []"
    and "risks (enrichOutput rules r p) \<noteq> []"
    and "sections (metadata (enrichOutput rules r p)) \<noteq> []"
    and "acceptanceCriteria (metadata (enrichOutput rules r p)) \<noteq> []"
    and "checklist (metadata (enrichOutput rules r p)) \<noteq> []"
  using assms by (simp_all add: enrichOutput_def Let_def js_def)

subsection \<open>The promise settles once\<close>

lemma run_append: "run (xs @ ys) = foldl step (run xs) ys"
  by (simp add: run_def)

lemma step_settled: "settled p = Some v \<Longrightarrow> settled (step p ev) = Some v"
  by (cases ev) (simp_all add: settle_def)

lemma foldl_step_settled: "settled p = Some v \<Longrightarrow> settled (foldl step p evs) = Some v"
  by (induction evs arbitrary: p) (simp_all add: step_settled)

lemma executeCodexCommand_first:
  "settled (step (run pre) ev) = Some v \<Longrightarrow> executeCodexCommand (pre @ ev # post) = Some v"
  by (simp add: executeCodexCommand_def run_append foldl_step_settled)

text \<open>
  An exit with code 0 whose trimmed output validates to a result with content in every
  field returns that result.
\<close>

lemma valid_output_unchanged:
  assumes "settled (run pre) = None"
    and "tryParseJSONOutput (trim (stdout (run pre))) = Some r"
    and "enrichOutput rules r (prompt request) = r"
  shows "runCodexCLI rules request (pre @ Close (Some 0) # post) = Some r"
proof -
  have "settled (step (run pre) (Close (Some 0))) = Some (Inr (trim (stdout (run pre))))"
    using assms(1) by (simp add: settle_def)
  then have "executeCodexCommand (pre @ Close (Some 0) # post) = Some (Inr (trim (stdout (run pre))))"
    by (rule executeCodexCommand_first)
  with assms(2,3) show ?thesis
    by (simp add: runCodexCLI_def)
qed

text \<open>While the promise is pending the timer is armed.\<close>

lemma pending_armed: "settled (run evs) = None \<Longrightarrow> timerArmed (run evs)"
proof (induction evs rule: rev_induct)
  case Nil
  then show ?case by (simp add: run_def spawned_def)
next
  case (snoc ev evs)
  then show ?case
    by (cases ev) (auto simp add: run_def settle_def split: if_splits option.splits)
qed

lemma signals_after_disarm:
  "\<not> timerArmed p \<Longrightarrow> signals (foldl step p evs) = signals p \<and> \<not> timerArmed (foldl step p evs)"
proof (induction evs arbitrary: p)
  case Nil
  then show ?case by simp
next
  case (Cons ev evs)
  have "\<not> timerArmed (step p ev) \<and> signals (step p ev) = signals p"
    using Cons.prems by (cases ev) (simp_all add: settle_def split: option.splits)
  with Cons.IH [of "step p ev"] show ?case by simp
qed

lemma signals_grow: "set (signals p) \<subseteq> set (signals (foldl step p evs))"
proof (induction evs arbitrary: p)
  case Nil
  then show ?case by simp
next
  case (Cons ev evs)
  have "set (signals p) \<subseteq> set (signals (step p ev))"
    by (cases ev) (auto simp add: settle_def split: option.splits)
  with Cons.IH [of "step p ev"] show ?case by auto
qed

subsection \<open>Insertion-ordered sets\<close>




subsection \<open>Sample evaluations\<close>

lemma suggestTags_hello: "suggestTags getDefaultRules (js ''hello'') = []"
  by (simp add: suggestTags_def suggestedTags_def getDefaultRules_def commonTagMatches_def
      new_Set_def Set_add_def str_eval)

lemma suggestTags_api: "suggestTags getDefaultRules (js ''api'') = [js ''api'']"
  by (simp add: suggestTags_def suggestedTags_def getDefaultRules_def commonTagMatches_def
      new_Set_def Set_add_def str_eval)

lemma tryParse_ok: "tryParseJSONOutput (js ''ok'') = None"
  by (simp add: tryParseJSONOutput_def matchBraces_def js_def)

lemma execute_ok:
  "executeCodexCommand [StdoutData (js ''ok''), Close (Some 0)] = Some (Inr (js ''ok''))"
  by (simp add: executeCodexCommand_def run_def spawned_def settle_def trim_def isWhiteSpace_def js_def)

lemma trim_scenarioB: "trim scenarioB_stdout = scenarioB_stdout"
  by (simp add: trim_def scenarioB_stdout_def js_def isWhiteSpace_def)

lemma matchBraces_scenarioB: "matchBraces scenarioB_stdout = Some scenarioB_stdout"
  by (simp add: matchBraces_def scenarioB_stdout_def js_def)

lemma JSON_parse_scenarioB: "JSON_parse scenarioB_stdout = Some scenarioB_object"
  by (simp add: scenarioB_stdout_def scenarioB_object_def json_eval)

lemma zparse_scenarioB: "zparse CodexOutputSchema scenarioB_object = Some scenarioB_object"
  by (simp add: scenarioB_object_def zod_eval)

lemma asRefined_scenarioB: "asRefinedPromptOutput scenarioB_object = Some scenarioB_result"
  by (simp add: scenarioB_object_def zod_eval scenarioB_result_def)

lemma tryParse_scenarioB: "tryParseJSONOutput scenarioB_stdout = Some scenarioB_result"
  by (simp add: tryParseJSONOutput_def matchBraces_scenarioB JSON_parse_scenarioB
      zparse_scenarioB asRefined_scenarioB)

lemma enrich_scenarioB: "enrichOutput rules scenarioB_result p = scenarioB_result"
  by (rule enrichOutput_complete)
     (simp_all add: scenarioB_result_def trim_def js_def isWhiteSpace_def)

lemma matchBraces_annotated: "matchBraces annotated_stdout = Some annotated_json"
  by (simp add: matchBraces_def annotated_stdout_def annotated_json_def js_def)

lemma JSON_parse_annotated: "JSON_parse annotated_json = Some (JObject annotated_object)"
  by (simp add: annotated_json_def annotated_object_def annotated_metadata_def json_eval)

lemma those_zparse_strings: "those (map (zparse ZString \<circ> JString) xs) = Some (map JString xs)"
  by (induction xs) simp_all

lemma those_stringOf: "those (map (stringOf \<circ> JString) xs) = Some xs"
  by (induction xs) (simp_all add: stringOf_def)

lemma stringsOf_strings: "stringsOf (JArray (map JString xs)) = Some xs"
  by (simp add: stringsOf_def those_stringOf)

section \<open>Template detection\<close>



text \<open>The order matters: without a development keyword the same data keyword decides.\<close>

lemma detectTemplate_postgres_only:
  "detectTemplate (js ''load into Postgres'') = js ''data_processing''"
  by (simp add: detectTemplate_def str_eval)

section \<open>Risk identification\<close>



section \<open>Tags\<close>




text \<open>
  C7. On the fallback path the caller's tags follow the suggested tags and the combined
  sequence is cut to its first eight entries; when the combination has more than eight
  entries the returned sequence has exactly eight, and enrichment leaves it as it is.
\<close>

theorem fallback_tags_capped:
  "tags (createFallbackOutput rules p out ctx tgs) = take 8 (suggestTags rules p @ orEmpty tgs)
   \<and> (8 < length (suggestTags rules p @ orEmpty tgs) \<longrightarrow>
        length (tags (createFallbackOutput rules p out ctx tgs)) = 8
        \<and> tags (enrichOutput rules (createFallbackOutput rules p out ctx tgs) p)
            = take 8 (suggestTags rules p @ orEmpty tgs))"
proof -
  define combined where "combined = suggestTags rules p @ orEmpty tgs"
  have t: "tags (createFallbackOutput rules p out ctx tgs) = take 8 combined"
    by (simp add: createFallbackOutput_tags combined_def)
  have l: "length (take 8 combined) = 8" if "8 < length combined"
    using that by simp
  have e: "tags (enrichOutput rules (createFallbackOutput rules p out ctx tgs) p) = take 8 combined"
    if "8 < length combined"
    using l [OF that] by (simp add: enrichOutput_tags t)
  from t l e show ?thesis
    unfolding combined_def by simp
qed

theorem fallback_tags_capped_witness:
  "8 < length (suggestTags getDefaultRules (js ''api'')
         @ orEmpty (Some [js ''a'', js ''b'', js ''c'', js ''d'', js ''e'', js ''f'', js ''g'', js ''h'']))
   \<and> length (tags (createFallbackOutput getDefaultRules (js ''api'') (js ''ok'') None
         (Some [js ''a'', js ''b'', js ''c'', js ''d'', js ''e'', js ''f'', js ''g'', js ''h'']))) = 8
   \<and> tags (enrichOutput getDefaultRules (createFallbackOutput getDefaultRules (js ''api'') (js ''ok'') None
         (Some [js ''a'', js ''b'', js ''c'', js ''d'', js ''e'', js ''f'', js ''g'', js ''h''])) (js ''api''))
       = [js ''api'', js ''a'', js ''b'', js ''c'', js ''d'', js ''e'', js ''f'', js ''g'']"
  using fallback_tags_capped [of getDefaultRules "js ''api''" "js ''ok''" None
      "Some [js ''a'', js ''b'', js ''c'', js ''d'', js ''e'', js ''f'', js ''g'', js ''h'']"]
  by (simp add: suggestTags_api orEmpty_def)

section \<open>The fallback path of the reconciler\<close>

text \<open>
  C3, as stated, fails. For the prompt "abcde" and the output of the two lines "ab" and
  "abcd", the specification's choice is "abcd" (four is 80 percent of five); the code
  returns "ab": the line of exactly 80 percent does not pass the strict test, and with
  no line passing it the first non-blank line is taken, not the prompt.
\<close>

theorem fallback_improvedPrompt_counterexample:
  "improvedPrompt (createFallbackOutput getDefaultRules (js ''abcde'') (js ''ab'' @ [10] @ js ''abcd'') None None)
     = js ''ab''
   \<and> spec_improvedPrompt (js ''abcde'') (js ''ab'' @ [10] @ js ''abcd'') = js ''abcd''"
  by (simp add: createFallbackOutput_def spec_improvedPrompt_def Let_def split_nl_def trim_def
      isWhiteSpace_def substantial_def orElse_def first_def js_def)

text \<open>
  C3, amended. On the fallback path \<open>improvedPrompt\<close> is the first non-blank line of the
  output whose length is more than 80 percent of the length of the original prompt when
  there is such a line; otherwise the first non-blank line of the output when there is
  one; otherwise the original prompt.
\<close>

theorem fallback_improvedPrompt:
  "improvedPrompt (createFallbackOutput rules p out ctx tgs) =
     (case find (substantial p) (filter (\<lambda>line. trim line \<noteq> []) (split_nl out)) of
        Some line \<Rightarrow> line
      | None \<Rightarrow>
          (case filter (\<lambda>line. trim line \<noteq> []) (split_nl out) of
             [] \<Rightarrow> p
           | line # _ \<Rightarrow> line))"
proof -
  define lines where "lines = filter (\<lambda>line. trim line \<noteq> []) (split_nl out)"
  have ne: "l \<noteq> []" if "l \<in> set lines" for l
    using that trim_Nil by (auto simp add: lines_def)
  have "(if length lines > 0
      then orElse (find (substantial p) lines) (orElse (first lines) p)
      else p) = (case find (substantial p) lines of
        Some line \<Rightarrow> line
      | None \<Rightarrow> (case lines of [] \<Rightarrow> p | line # _ \<Rightarrow> line))"
  proof (cases "find (substantial p) lines")
    case None
    then show ?thesis
      using ne by (cases lines) (simp_all add: orElse_def first_def)
  next
    case (Some l)
    then have "l \<in> set lines" by (rule find_Some_mem)
    then have "l \<noteq> []" "lines \<noteq> []" using ne by auto
    with Some show ?thesis
      by (simp add: orElse_def)
  qed
  then show ?thesis
    unfolding createFallbackOutput_improvedPrompt Let_def lines_def .
qed

section \<open>Strict validation\<close>

text \<open>
  C6. When the process exits 0 and its standard output is exactly the object of
  scenario B, the pipeline returns that object, field for field, whatever the request
  and the rule document are.
\<close>

theorem scenarioB_unchanged:
  "settled (run pre) = None \<Longrightarrow> stdout (run pre) = scenarioB_stdout \<Longrightarrow>
   runCodexCLI rules request (pre @ Close (Some 0) # post) = Some scenarioB_result"
proof -
  assume pending: "settled (run pre) = None" and out: "stdout (run pre) = scenarioB_stdout"
  have "tryParseJSONOutput (trim (stdout (run pre))) = Some scenarioB_result"
    by (simp add: out trim_scenarioB tryParse_scenarioB)
  with pending show ?thesis
    by (rule valid_output_unchanged) (rule enrich_scenarioB)
qed

theorem scenarioB_unchanged_witness:
  "settled (run [StdoutData scenarioB_stdout]) = None
   \<and> stdout (run [StdoutData scenarioB_stdout]) = scenarioB_stdout
   \<and> runCodexCLI getDefaultRules
        \<lparr> prompt = js ''hello'', request_context = None, request_tags = None, model = None \<rparr>
        ([StdoutData scenarioB_stdout] @ Close (Some 0) # []) = Some scenarioB_result"
proof -
  have a: "settled (run [StdoutData scenarioB_stdout]) = None"
    by (simp add: run_def spawned_def)
  have b: "stdout (run [StdoutData scenarioB_stdout]) = scenarioB_stdout"
    by (simp add: run_def spawned_def)
  from a b scenarioB_unchanged [OF a b] show ?thesis by simp
qed

text \<open>
  C10. When the text between the first opening and the last closing brace of the output
  parses to an object that has the five required fields with the required types, the
  validation succeeds whatever other keys the object and its metadata carry: the
  validated object has the keys of the schema and no other, and the record returned
  holds the values of the required fields.
\<close>

theorem unknown_keys_stripped:
  assumes "matchBraces out = Some jsonMatch"
    and "JSON_parse jsonMatch = Some (JObject kvs)"
    and "map_of kvs (js ''improvedPrompt'') = Some (JString ip)"
    and "map_of kvs (js ''rationale'') = Some (JString ra)"
    and "map_of kvs (js ''risks'') = Some (JArray (map JString rs))"
    and "map_of kvs (js ''tags'') = Some (JArray (map JString ts))"
    and "map_of kvs (js ''metadata'') = Some (JObject mkvs)"
    and "map_of mkvs (js ''sections'') = Some (JArray (map JString ss))"
    and "map_of mkvs (js ''acceptanceCriteria'') = Some (JArray (map JString ac))"
    and "map_of mkvs (js ''checklist'') = Some (JArray (map JString cl))"
  shows
    "zparse CodexOutputSchema (JObject kvs) =
       Some (JObject
         [(js ''improvedPrompt'', JString ip),
          (js ''rationale'', JString ra),
          (js ''risks'', JArray (map JString rs)),
          (js ''tags'', JArray (map JString ts)),
          (js ''metadata'', JObject
             [(js ''sections'', JArray (map JString ss)),
              (js ''acceptanceCriteria'', JArray (map JString ac)),
              (js ''checklist'', JArray (map JString cl))])])
     \<and> tryParseJSONOutput out =
         Some \<lparr> improvedPrompt = ip, rationale = ra, risks = rs, tags = ts,
                metadata = \<lparr> sections = ss, acceptanceCriteria = ac, checklist = cl \<rparr> \<rparr>"
proof -
  let ?meta = "JObject
             [(js ''sections'', JArray (map JString ss)),
              (js ''acceptanceCriteria'', JArray (map JString ac)),
              (js ''checklist'', JArray (map JString cl))]"
  let ?validated = "JObject
         [(js ''improvedPrompt'', JString ip),
          (js ''rationale'', JString ra),
          (js ''risks'', JArray (map JString rs)),
          (js ''tags'', JArray (map JString ts)),
          (js ''metadata'', ?meta)]"
  have z: "zparse CodexOutputSchema (JObject kvs) = Some ?validated"
    unfolding CodexOutputSchema_def
    using assms(3-10) by (simp add: those_zparse_strings)
  have pm: "asPromptMetadata ?meta = Some \<lparr> sections = ss, acceptanceCriteria = ac, checklist = cl \<rparr>"
    by (simp add: asPromptMetadata_def field_def stringsOf_strings js_def)
  have r: "asRefinedPromptOutput ?validated =
         Some \<lparr> improvedPrompt = ip, rationale = ra, risks = rs, tags = ts,
                metadata = \<lparr> sections = ss, acceptanceCriteria = ac, checklist = cl \<rparr> \<rparr>"
    using pm by (simp add: asRefinedPromptOutput_def field_def stringOf_def stringsOf_strings js_def)
  from z r assms(1,2) show ?thesis
    by (simp add: tryParseJSONOutput_def)
qed

theorem unknown_keys_stripped_witness:
  "matchBraces annotated_stdout = Some annotated_json
   \<and> JSON_parse annotated_json = Some (JObject annotated_object)
   \<and> map_of annotated_object (js ''note'') = Some (JNumber (js ''42''))
   \<and> map_of annotated_metadata (js ''extra'') = Some JNull
   \<and> zparse CodexOutputSchema (JObject annotated_object) = Some scenarioB_object
   \<and> tryParseJSONOutput annotated_stdout = Some scenarioB_result"
proof -
  have k: "map_of annotated_object (js ''improvedPrompt'') = Some (JString (js ''x''))"
    "map_of annotated_object (js ''rationale'') = Some (JString (js ''y''))"
    "map_of annotated_object (js ''risks'') = Some (JArray (map JString [js ''r1'']))"
    "map_of annotated_object (js ''tags'') = Some (JArray (map JString [js ''t1'']))"
    "map_of annotated_object (js ''metadata'') = Some (JObject annotated_metadata)"
    "map_of annotated_metadata (js ''sections'') = Some (JArray (map JString [js ''s1'']))"
    "map_of annotated_metadata (js ''acceptanceCriteria'') = Some (JArray (map JString [js ''a1'']))"
    "map_of annotated_metadata (js ''checklist'') = Some (JArray (map JString [js ''c1'']))"
    by (simp_all add: annotated_object_def annotated_metadata_def js_def)
  have e: "map_of annotated_object (js ''note'') = Some (JNumber (js ''42''))"
    "map_of annotated_metadata (js ''extra'') = Some JNull"
    by (simp_all add: annotated_object_def annotated_metadata_def js_def)
  from e matchBraces_annotated JSON_parse_annotated
    unknown_keys_stripped [OF matchBraces_annotated JSON_parse_annotated k]
  show ?thesis by (simp add: scenarioB_object_def scenarioB_result_def)
qed

section \<open>Timeout\<close>

text \<open>
  C5. When the timer fires while it is armed (the process has not closed), the invoker
  sends SIGTERM; when the promise is then still pending (the process has neither closed
  nor failed to start), the call fails with the timeout error, whatever events follow,
  a later exit of the process included. A close event, wherever it occurs, cancels the
  timer: it is never armed afterwards and no signal is sent after the close.
\<close>

theorem timeout_and_close:
  "(timerArmed (run pre) \<longrightarrow> js ''SIGTERM'' \<in> set (signals (run (pre @ TimerFires # post))))
   \<and> (settled (run pre) = None \<longrightarrow>
        executeCodexCommand (pre @ TimerFires # post) = Some (Inl timeoutError))
   \<and> \<not> timerArmed (run (pre @ Close c # post))
   \<and> signals (run (pre @ Close c # post)) = signals (run pre)"
proof -
  have kill: "js ''SIGTERM'' \<in> set (signals (run (pre @ TimerFires # post)))" if "timerArmed (run pre)"
  proof -
    have "js ''SIGTERM'' \<in> set (signals (step (run pre) TimerFires))"
      using that by (simp add: settle_def split: option.splits)
    then show ?thesis
      using signals_grow [of "step (run pre) TimerFires" post] by (auto simp add: run_append)
  qed
  have fail: "executeCodexCommand (pre @ TimerFires # post) = Some (Inl timeoutError)"
    if "settled (run pre) = None"
    using that pending_armed [OF that]
    by (intro executeCodexCommand_first) (simp add: settle_def)
  have "\<not> timerArmed (step (run pre) (Close c))"
    and "signals (step (run pre) (Close c)) = signals (run pre)"
    by (simp_all add: settle_def split: option.splits)
  with signals_after_disarm [of "step (run pre) (Close c)" post]
  have closed: "\<not> timerArmed (run (pre @ Close c # post))"
    "signals (run (pre @ Close c # post)) = signals (run pre)"
    by (simp_all add: run_append)
  from kill fail closed show ?thesis by blast
qed

theorem timeout_and_close_witness:
  "timerArmed (run [StdoutData (js ''partial'')])
   \<and> js ''SIGTERM'' \<in> set (signals (run ([StdoutData (js ''partial'')] @ TimerFires # [Close None])))
   \<and> settled (run [StdoutData (js ''partial'')]) = None
   \<and> executeCodexCommand ([StdoutData (js ''partial'')] @ TimerFires # [Close None])
       = Some (Inl timeoutError)"
proof -
  have a: "timerArmed (run [StdoutData (js ''partial'')])"
    by (simp add: run_def spawned_def)
  have b: "settled (run [StdoutData (js ''partial'')]) = None"
    by (simp add: run_def spawned_def)
  from a b timeout_and_close [of "[StdoutData (js ''partial'')]" "[Close None]"]
  show ?thesis by simp
qed

section \<open>The orchestrator\<close>



text \<open>
  C1, evaluated where it fails. The prompt is "hello", the process prints "ok" and exits
  0. The output holds no JSON object, the fallback path finds no tag for the prompt, and
  the enrichment fills the empty tag list with \<open>suggestTags\<close> of the same prompt: the
  result leaves the orchestrator with no tag.
\<close>

theorem enrichOutput_leaves_tags_empty:
  "map_option tags
     (runCodexCLI getDefaultRules
        \<lparr> prompt = js ''hello'', request_context = None, request_tags = None, model = None \<rparr>
        [StdoutData (js ''ok''), Close (Some 0)]) = Some []"
  by (simp add: runCodexCLI_def execute_ok tryParse_ok enrichOutput_tags createFallbackOutput_tags
      suggestTags_hello orEmpty_def)

end
